theory Spec2Isabelle
  imports Main
begin

section \<open>Data model (app/trello/models.py)\<close>

text \<open>
  Every SQLAlchemy model class is a record of its columns and every table is the list of
  its rows, in insertion order. Primary keys and user ids are Python integers
  (\<^typ>\<open>int\<close>); a nullable column without default is an \<open>option\<close>. Boolean
  columns carry \<open>default=False\<close> and are read by truthiness, so they are \<^typ>\<open>bool\<close>.
  A \<open>DateTime\<close> is a point on the time line, an \<^typ>\<open>int\<close>. The columns
  \<open>created_at\<close>, \<open>updated_at\<close>, \<open>added_at\<close>, the cover and background columns
  and the attachment table are read by none of the functions below and are left out.
  The \<open>User\<close> model lives outside this package; of the \<open>users\<close> table only the
  primary keys are kept.
\<close>

record BoardMember =
  mem_board_id :: int
  mem_user_id :: int
  mem_role :: "string option"

record TrelloBoard =
  brd_id :: int
  brd_name :: string
  brd_description :: "string option"
  brd_is_private :: bool
  brd_is_archived :: bool
  brd_created_by :: "int option"

record TrelloList =
  lst_id :: int
  lst_board_id :: int
  lst_name :: string
  lst_position :: int
  lst_is_archived :: bool

record TrelloCard =
  crd_id :: int
  crd_list_id :: int
  crd_title :: string
  crd_description :: "string option"
  crd_position :: int
  crd_due_date :: "int option"
  crd_due_complete :: bool
  crd_is_archived :: bool
  crd_created_by :: "int option"

record TrelloLabel =
  lbl_id :: int
  lbl_board_id :: int
  lbl_name :: string
  lbl_color :: string

record TrelloComment =
  cmt_id :: int
  cmt_card_id :: int
  cmt_user_id :: int
  cmt_content :: string

record TrelloChecklist =
  chk_id :: int
  chk_card_id :: int
  chk_name :: string
  chk_position :: int

record TrelloChecklistItem =
  itm_id :: int
  itm_checklist_id :: int
  itm_content :: string
  itm_is_complete :: bool
  itm_position :: int
  itm_completed_by :: "int option"
  itm_completed_at :: "int option"

record TrelloActivity =
  act_id :: int
  act_board_id :: int
  act_user_id :: "int option"
  act_action :: string
  act_target_type :: "string option"
  act_target_id :: "int option"
  act_details :: "(string \<times> string) list option"

text \<open>The database session: one field per table, named by \<open>__tablename__\<close>.\<close>

record db =
  users :: "int list"
  trello_boards :: "TrelloBoard list"
  board_members :: "BoardMember list"
  trello_lists :: "TrelloList list"
  trello_cards :: "TrelloCard list"
  trello_labels :: "TrelloLabel list"
  trello_comments :: "TrelloComment list"
  trello_checklists :: "TrelloChecklist list"
  trello_checklist_items :: "TrelloChecklistItem list"
  trello_activities :: "TrelloActivity list"

text \<open>
  What a view function returns besides the session: the HTTP errors of the routes.
  \<open>get_or_404\<close> gives \<open>NotFound404\<close>, a failed permission check
  \<open>Forbidden403\<close>, an explicit 400 \<open>BadRequest400\<close>, and an exception that no
  handler catches (a NOT NULL violation at flush, an attribute read on \<open>None\<close>)
  \<open>ServerError500\<close>. A failed request leaves the session as it was.
\<close>

datatype error = NotFound404 | Forbidden403 | BadRequest400 | ServerError500

datatype http_method = GET | POST

datatype response = Render_create_board | Redirect_view_board int

section \<open>Identity and role resolver (TrelloBoard methods)\<close>

text \<open>\<open>get_member_role\<close>: the role of the first \<open>board_members\<close> row of the pair, else \<open>None\<close>.\<close>

definition get_member_role :: "db \<Rightarrow> TrelloBoard \<Rightarrow> int \<Rightarrow> string option" where
  "get_member_role s board user_id =
     (case find (\<lambda>r. mem_board_id r = brd_id board \<and> mem_user_id r = user_id) (board_members s) of
        None \<Rightarrow> None
      | Some result \<Rightarrow> mem_role result)"

definition is_owner :: "db \<Rightarrow> TrelloBoard \<Rightarrow> int \<Rightarrow> bool" where
  "is_owner s board user_id \<longleftrightarrow>
     brd_created_by board = Some user_id \<or> get_member_role s board user_id = Some ''owner''"

definition can_edit :: "db \<Rightarrow> TrelloBoard \<Rightarrow> int \<Rightarrow> bool" where
  "can_edit s board user_id \<longleftrightarrow>
     (let role = get_member_role s board user_id
      in role \<in> set [Some ''owner'', Some ''admin'', Some ''member'']
         \<or> brd_created_by board = Some user_id)"

text \<open>
  The relationship \<open>members\<close>: the users joined to the board through the secondary table
  \<open>board_members\<close>; \<open>members\<close> below is the list \<open>[m.id for m in self.members]\<close>.
\<close>

definition members :: "db \<Rightarrow> TrelloBoard \<Rightarrow> int list" where
  "members s board =
     map mem_user_id
       (filter (\<lambda>r. mem_board_id r = brd_id board \<and> mem_user_id r \<in> set (users s)) (board_members s))"

definition can_view :: "db \<Rightarrow> TrelloBoard \<Rightarrow> int \<Rightarrow> bool" where
  "can_view s board user_id \<longleftrightarrow>
     (if \<not> brd_is_private board then True
      else user_id \<in> set (members s board) \<or> brd_created_by board = Some user_id)"

text \<open>\<open>TrelloCard.is_overdue\<close>, with \<open>datetime.utcnow()\<close> as the argument \<open>now\<close>.\<close>

definition is_overdue :: "int \<Rightarrow> TrelloCard \<Rightarrow> bool" where
  "is_overdue now c =
     (case crd_due_date c of
        None \<Rightarrow> False
      | Some due \<Rightarrow> if crd_due_complete c then False else now > due)"

section \<open>Session helpers (app/trello/__init__.py)\<close>

text \<open>
  The primary key the database gives a new row: above every key of the table. The
  engine is not part of the package; this is its AUTOINCREMENT.
\<close>

definition next_id :: "int list \<Rightarrow> int" where
  "next_id ids = fold max ids 0 + 1"

text \<open>\<open>db.func.max(...).scalar()\<close>: SQL's \<open>MAX\<close>, \<open>NULL\<close> on no rows.\<close>

fun sql_max :: "int list \<Rightarrow> int option" where
  "sql_max [] = None"
| "sql_max (x # xs) = Some (fold max xs x)"

text \<open>
  What an \<open>INTEGER\<close> column stores: a signed 64-bit value. For a Python integer
  outside this range the driver raises \<open>OverflowError\<close> when the row is written, so
  the commit fails, nothing is stored and the request ends in \<open>ServerError500\<close>.
\<close>

definition sql_integer :: "int \<Rightarrow> bool" where
  "sql_integer v \<longleftrightarrow> - (2 ^ 63) \<le> v \<and> v < 2 ^ 63"

text \<open>Python's \<open>v or d\<close> on an optional integer: \<open>None\<close> and \<open>0\<close> are falsy.\<close>

fun py_or :: "int option \<Rightarrow> int \<Rightarrow> int" where
  "py_or None d = d"
| "py_or (Some v) d = (if v = 0 then d else v)"

text \<open>\<open>log_activity\<close>: adds one \<open>TrelloActivity\<close> of the current user to the session.\<close>

definition log_activity ::
  "db \<Rightarrow> int \<Rightarrow> int \<Rightarrow> string \<Rightarrow> string option \<Rightarrow> int option \<Rightarrow> (string \<times> string) list option \<Rightarrow> db" where
  "log_activity s current_user board_id action target_type target_id details =
     s\<lparr>trello_activities := trello_activities s @
        [\<lparr>act_id = next_id (map act_id (trello_activities s)),
          act_board_id = board_id,
          act_user_id = Some current_user,
          act_action = action,
          act_target_type = target_type,
          act_target_id = target_id,
          act_details = details\<rparr>]\<rparr>"

definition check_board_access :: "db \<Rightarrow> int \<Rightarrow> TrelloBoard \<Rightarrow> bool \<Rightarrow> bool" where
  "check_board_access s current_user board require_edit =
     (if require_edit then can_edit s board current_user else can_view s board current_user)"

text \<open>\<open>Model.query.get(id)\<close> on each table: the row of that primary key, if any.\<close>

definition get_board :: "db \<Rightarrow> int \<Rightarrow> TrelloBoard option" where
  "get_board s i = find (\<lambda>b. brd_id b = i) (trello_boards s)"

definition get_list :: "db \<Rightarrow> int \<Rightarrow> TrelloList option" where
  "get_list s i = find (\<lambda>l. lst_id l = i) (trello_lists s)"

definition get_card :: "db \<Rightarrow> int \<Rightarrow> TrelloCard option" where
  "get_card s i = find (\<lambda>c. crd_id c = i) (trello_cards s)"

definition get_comment :: "db \<Rightarrow> int \<Rightarrow> TrelloComment option" where
  "get_comment s i = find (\<lambda>c. cmt_id c = i) (trello_comments s)"

definition get_checklist :: "db \<Rightarrow> int \<Rightarrow> TrelloChecklist option" where
  "get_checklist s i = find (\<lambda>c. chk_id c = i) (trello_checklists s)"

definition get_checklist_item :: "db \<Rightarrow> int \<Rightarrow> TrelloChecklistItem option" where
  "get_checklist_item s i = find (\<lambda>c. itm_id c = i) (trello_checklist_items s)"

text \<open>
  The backrefs \<open>card.list.board\<close>: the list of the card's \<open>list_id\<close>, then the board
  of its \<open>board_id\<close>. A dangling reference gives \<open>None\<close>, and the attribute read on
  it that follows in every route is the uncaught exception \<open>ServerError500\<close>.
\<close>

definition board_of_list :: "db \<Rightarrow> TrelloList \<Rightarrow> error + TrelloBoard" where
  "board_of_list s l =
     (case get_board s (lst_board_id l) of None \<Rightarrow> Inl ServerError500 | Some b \<Rightarrow> Inr b)"

definition list_of_card :: "db \<Rightarrow> TrelloCard \<Rightarrow> error + TrelloList" where
  "list_of_card s c =
     (case get_list s (crd_list_id c) of None \<Rightarrow> Inl ServerError500 | Some l \<Rightarrow> Inr l)"

definition board_of_card :: "db \<Rightarrow> TrelloCard \<Rightarrow> error + TrelloBoard" where
  "board_of_card s c =
     (case list_of_card s c of Inl e \<Rightarrow> Inl e | Inr l \<Rightarrow> board_of_list s l)"

section \<open>Board, list and card routes\<close>

text \<open>
  Each route takes the session, the id of \<open>current_user\<close> and what it reads of the
  request, and returns the committed session or the error. A form or JSON field that
  may be absent is an \<open>option\<close>, \<open>None\<close> for the absent key.
\<close>

record board_form =
  form_name :: "string option"
  form_description :: "string option"
  form_is_private :: "string option"

definition default_labels :: "(string \<times> string) list" where
  "default_labels =
     [('''', ''emerald''), ('''', ''blue''), ('''', ''purple''),
      ('''', ''red''), ('''', ''yellow''), ('''', ''orange'')]"

definition default_lists :: "string list" where
  "default_lists = [''To Do'', ''In Progress'', ''Done'']"

definition add_label :: "int \<Rightarrow> string \<times> string \<Rightarrow> db \<Rightarrow> db" where
  "add_label board_id nc s =
     s\<lparr>trello_labels := trello_labels s @
        [\<lparr>lbl_id = next_id (map lbl_id (trello_labels s)),
          lbl_board_id = board_id, lbl_name = fst nc, lbl_color = snd nc\<rparr>]\<rparr>"

definition add_list :: "int \<Rightarrow> nat \<times> string \<Rightarrow> db \<Rightarrow> db" where
  "add_list board_id ixn s =
     s\<lparr>trello_lists := trello_lists s @
        [\<lparr>lst_id = next_id (map lst_id (trello_lists s)),
          lst_board_id = board_id, lst_name = snd ixn, lst_position = int (fst ixn),
          lst_is_archived = False\<rparr>]\<rparr>"

text \<open>
  \<open>create_board\<close>. The board's \<open>name\<close> column is NOT NULL, so a form without the field
  fails at \<open>flush\<close>. After the flush the board has its key, which the labels, the
  lists and the activity entry carry; one \<open>commit\<close> ends the request.
\<close>

definition create_board :: "db \<Rightarrow> int \<Rightarrow> http_method \<Rightarrow> board_form \<Rightarrow> error + response \<times> db" where
  "create_board s current_user method form =
     (case method of
        GET \<Rightarrow> Inr (Render_create_board, s)
      | POST \<Rightarrow>
         (case form_name form of
            None \<Rightarrow> Inl ServerError500
          | Some name \<Rightarrow>
             (let board = \<lparr>brd_id = next_id (map brd_id (trello_boards s)),
                           brd_name = name,
                           brd_description = form_description form,
                           brd_is_private = (form_is_private form = Some ''on''),
                           brd_is_archived = False,
                           brd_created_by = Some current_user\<rparr>;
                  s1 = s\<lparr>trello_boards := trello_boards s @ [board]\<rparr>;
                  s2 = fold (add_label (brd_id board)) default_labels s1;
                  s3 = fold (add_list (brd_id board)) (enumerate 0 default_lists) s2;
                  s4 = log_activity s3 current_user (brd_id board) ''created_board''
                         (Some ''board'') (Some (brd_id board)) None
              in Inr (Redirect_view_board (brd_id board), s4))))"


text \<open>
  \<open>create_card\<close>. \<open>request.form.get('title', 'New Card')\<close> gives the default for an
  absent field. As in \<open>create_list\<close>, \<open>card.id\<close> is still \<open>None\<close> when it is logged,
  and the commit fails on a position that the column cannot store.
\<close>

definition create_card :: "db \<Rightarrow> int \<Rightarrow> int \<Rightarrow> string option \<Rightarrow> error + db" where
  "create_card s current_user list_id title =
     (case get_list s list_id of
        None \<Rightarrow> Inl NotFound404
      | Some lst \<Rightarrow>
         (case board_of_list s lst of
            Inl e \<Rightarrow> Inl e
          | Inr board \<Rightarrow>
             if \<not> check_board_access s current_user board True then Inl Forbidden403
             else
               (let max_pos = py_or (sql_max (map crd_position
                                (filter (\<lambda>c. crd_list_id c = list_id) (trello_cards s)))) 0;
                    new_card = \<lparr>crd_id = next_id (map crd_id (trello_cards s)),
                           crd_list_id = list_id,
                           crd_title = (case title of None \<Rightarrow> ''New Card'' | Some t \<Rightarrow> t),
                           crd_description = None,
                           crd_position = max_pos + 1,
                           crd_due_date = None,
                           crd_due_complete = False,
                           crd_is_archived = False,
                           crd_created_by = Some current_user\<rparr>;
                    s1 = s\<lparr>trello_cards := trello_cards s @ [new_card]\<rparr>
                in if \<not> sql_integer (crd_position new_card) then Inl ServerError500
                   else Inr (log_activity s1 current_user (brd_id board) ''created_card''
                               (Some ''card'') None
                               (Some [(''title'', crd_title new_card)])))))"

text \<open>The UPDATE a commit issues for a changed object: the row of its primary key.\<close>

definition write_card :: "TrelloCard \<Rightarrow> db \<Rightarrow> db" where
  "write_card c s =
     s\<lparr>trello_cards := map (\<lambda>x. if crd_id x = crd_id c then c else x) (trello_cards s)\<rparr>"

definition write_checklist_item :: "TrelloChecklistItem \<Rightarrow> db \<Rightarrow> db" where
  "write_checklist_item i s =
     s\<lparr>trello_checklist_items :=
         map (\<lambda>x. if itm_id x = itm_id i then i else x) (trello_checklist_items s)\<rparr>"

record move_data =
  data_list_id :: "int option"
  data_position :: "int option"

text \<open>
  \<open>move_card\<close>. The list is changed, and the move logged, only when the target list
  exists and is a list of the card's board; the position is written whenever given, and
  the commit fails, with nothing written, on a given position that the column cannot
  store.
\<close>

definition move_card :: "db \<Rightarrow> int \<Rightarrow> int \<Rightarrow> move_data \<Rightarrow> error + db" where
  "move_card s current_user i data =
     (case get_card s i of
        None \<Rightarrow> Inl NotFound404
      | Some c \<Rightarrow>
         (case list_of_card s c of
            Inl e \<Rightarrow> Inl e
          | Inr cur \<Rightarrow>
             (case board_of_list s cur of
                Inl e \<Rightarrow> Inl e
              | Inr board \<Rightarrow>
                 if \<not> check_board_access s current_user board True then Inl Forbidden403
                 else
                   (let old_list = lst_name cur;
                        (c1, s1) =
                          (case data_list_id data of
                             None \<Rightarrow> (c, s)
                           | Some list_id \<Rightarrow>
                              (case get_list s list_id of
                                 None \<Rightarrow> (c, s)
                               | Some new_list \<Rightarrow>
                                  if lst_board_id new_list = brd_id board
                                  then (c\<lparr>crd_list_id := lst_id new_list\<rparr>,
                                        log_activity s current_user (brd_id board) ''moved_card''
                                          (Some ''card'') (Some (crd_id c))
                                          (Some [(''from'', old_list), (''to'', lst_name new_list)]))
                                  else (c, s)));
                        c2 = (case data_position data of
                                None \<Rightarrow> c1
                              | Some p \<Rightarrow> c1\<lparr>crd_position := p\<rparr>)
                    in if (case data_position data of
                             None \<Rightarrow> False
                           | Some p \<Rightarrow> \<not> sql_integer p)
                       then Inl ServerError500
                       else Inr (write_card c2 s1)))))"

text \<open>\<open>delete_comment\<close>: only the comment's author or an owner of the board may delete.\<close>

definition delete_comment :: "db \<Rightarrow> int \<Rightarrow> int \<Rightarrow> error + db" where
  "delete_comment s current_user i =
     (case get_comment s i of
        None \<Rightarrow> Inl NotFound404
      | Some comment \<Rightarrow>
         (case get_card s (cmt_card_id comment) of
            None \<Rightarrow> Inl ServerError500
          | Some c \<Rightarrow>
             (case board_of_card s c of
                Inl e \<Rightarrow> Inl e
              | Inr board \<Rightarrow>
                 if cmt_user_id comment \<noteq> current_user \<and> \<not> is_owner s board current_user
                 then Inl Forbidden403
                 else Inr (s\<lparr>trello_comments :=
                             filter (\<lambda>x. cmt_id x \<noteq> cmt_id comment) (trello_comments s)\<rparr>))))"

text \<open>\<open>toggle_checklist_item\<close>, with \<open>datetime.utcnow()\<close> as the argument \<open>now\<close>.\<close>

definition toggle_checklist_item :: "db \<Rightarrow> int \<Rightarrow> int \<Rightarrow> int \<Rightarrow> error + db" where
  "toggle_checklist_item s current_user now i =
     (case get_checklist_item s i of
        None \<Rightarrow> Inl NotFound404
      | Some item \<Rightarrow>
         (case get_checklist s (itm_checklist_id item) of
            None \<Rightarrow> Inl ServerError500
          | Some checklist \<Rightarrow>
             (case get_card s (chk_card_id checklist) of
                None \<Rightarrow> Inl ServerError500
              | Some c \<Rightarrow>
                 (case board_of_card s c of
                    Inl e \<Rightarrow> Inl e
                  | Inr board \<Rightarrow>
                     if \<not> check_board_access s current_user board True then Inl Forbidden403
                     else
                       (let item1 = item\<lparr>itm_is_complete := \<not> itm_is_complete item\<rparr>;
                            item2 = (if itm_is_complete item1
                                     then item1\<lparr>itm_completed_by := Some current_user,
                                                itm_completed_at := Some now\<rparr>
                                     else item1\<lparr>itm_completed_by := None,
                                                itm_completed_at := None\<rparr>)
                        in Inr (write_checklist_item item2 s))))))"

text \<open>
  The invariant of a checklist item: \<open>completed_by\<close> and \<open>completed_at\<close> are both set
  when the item is complete and both \<open>None\<close> when it is not.
\<close>

definition completion_consistent :: "TrelloChecklistItem \<Rightarrow> bool" where
  "completion_consistent i \<longleftrightarrow>
     (if itm_is_complete i then itm_completed_by i \<noteq> None \<and> itm_completed_at i \<noteq> None
      else itm_completed_by i = None \<and> itm_completed_at i = None)"

section \<open>A small database\<close>

text \<open>
  Users 1 to 5. Board 1 is private, created by user 1, with user 2 as member, user 3 as
  viewer and user 4 as admin; board 2 is public, created by user 2. Lists 10 and 11 are on board 1, list
  20 on board 2. Card 100 is in list 10, with a comment of user 2 and a checklist item.
\<close>

definition ex_board1 :: TrelloBoard where
  "ex_board1 = \<lparr>brd_id = 1, brd_name = ''Rota'', brd_description = None,
     brd_is_private = True, brd_is_archived = False, brd_created_by = Some 1\<rparr>"

definition ex_board2 :: TrelloBoard where
  "ex_board2 = \<lparr>brd_id = 2, brd_name = ''Ideas'', brd_description = None,
     brd_is_private = False, brd_is_archived = False, brd_created_by = Some 2\<rparr>"

definition ex_card :: TrelloCard where
  "ex_card = \<lparr>crd_id = 100, crd_list_id = 10, crd_title = ''Shift swap'',
     crd_description = None, crd_position = 3, crd_due_date = Some 50,
     crd_due_complete = False, crd_is_archived = False, crd_created_by = Some 1\<rparr>"

definition ex_item :: TrelloChecklistItem where
  "ex_item = \<lparr>itm_id = 40, itm_checklist_id = 30, itm_content = ''Ask'',
     itm_is_complete = False, itm_position = 0, itm_completed_by = None,
     itm_completed_at = None\<rparr>"

definition ex_db :: db where
  "ex_db = \<lparr>users = [1, 2, 3, 4, 5],
     trello_boards = [ex_board1, ex_board2],
     board_members =
       [\<lparr>mem_board_id = 1, mem_user_id = 2, mem_role = Some ''member''\<rparr>,
        \<lparr>mem_board_id = 1, mem_user_id = 3, mem_role = Some ''viewer''\<rparr>,
        \<lparr>mem_board_id = 1, mem_user_id = 4, mem_role = Some ''admin''\<rparr>],
     trello_lists =
       [\<lparr>lst_id = 10, lst_board_id = 1, lst_name = ''To Do'', lst_position = 0,
         lst_is_archived = False\<rparr>,
        \<lparr>lst_id = 11, lst_board_id = 1, lst_name = ''Done'', lst_position = 5,
         lst_is_archived = False\<rparr>,
        \<lparr>lst_id = 20, lst_board_id = 2, lst_name = ''Inbox'', lst_position = 0,
         lst_is_archived = False\<rparr>],
     trello_cards = [ex_card],
     trello_labels = [],
     trello_comments =
       [\<lparr>cmt_id = 7, cmt_card_id = 100, cmt_user_id = 2, cmt_content = ''ok''\<rparr>],
     trello_checklists =
       [\<lparr>chk_id = 30, chk_card_id = 100, chk_name = ''Checklist'', chk_position = 0\<rparr>],
     trello_checklist_items = [ex_item],
     trello_activities = []\<rparr>"

definition ex_form :: board_form where
  "ex_form = \<lparr>form_name = Some ''Swaps'', form_description = None,
     form_is_private = Some ''on''\<rparr>"

section \<open>Permissions\<close>

text \<open>
  Claim C1. \<open>can_view\<close> characterises view permission completely. On a public board it
  is true for every user, member or not. On a private board it is true exactly for the
  board's creator and for the users in the board's \<open>members\<close>; and a user of the
  \<open>users\<close> table is in \<open>members\<close> exactly when \<open>board_members\<close> has a row for
  the board and the user.
\<close>

theorem can_view_complete:
  "(\<not> brd_is_private b \<longrightarrow> can_view s b u) \<and>
   (brd_is_private b \<longrightarrow>
      (can_view s b u \<longleftrightarrow> brd_created_by b = Some u \<or> u \<in> set (members s b))) \<and>
   (u \<in> set (users s) \<longrightarrow>
      (u \<in> set (members s b) \<longleftrightarrow>
         (\<exists>r\<in>set (board_members s). mem_board_id r = brd_id b \<and> mem_user_id r = u)))"
  by (auto simp: can_view_def members_def)

theorem can_view_complete_witness:
  "can_view ex_db ex_board2 4 \<and> can_view ex_db ex_board1 1 \<and> can_view ex_db ex_board1 3
   \<and> \<not> can_view ex_db ex_board1 5"
  using can_view_complete [of ex_board2 ex_db 4] can_view_complete [of ex_board1 ex_db 1]
    can_view_complete [of ex_board1 ex_db 3] can_view_complete [of ex_board1 ex_db 5]
  by (simp add: ex_db_def ex_board1_def ex_board2_def)

text \<open>
  Claim C2. \<open>can_edit\<close> is true exactly when the user is the board's creator or the
  resolved role is one of owner, admin, member. A user who is not the creator and whose
  membership rows on the board (there is at least one) all carry the role viewer cannot
  edit.
\<close>

theorem can_edit_roles:
  "(can_edit s b u \<longleftrightarrow>
      brd_created_by b = Some u \<or>
      get_member_role s b u \<in> {Some ''owner'', Some ''admin'', Some ''member''}) \<and>
   (brd_created_by b \<noteq> Some u \<and>
    (\<exists>r\<in>set (board_members s). mem_board_id r = brd_id b \<and> mem_user_id r = u) \<and>
    (\<forall>r\<in>set (board_members s).
        mem_board_id r = brd_id b \<and> mem_user_id r = u \<longrightarrow> mem_role r = Some ''viewer'')
    \<longrightarrow> \<not> can_edit s b u)"
proof (intro conjI impI)
  show "can_edit s b u \<longleftrightarrow>
      brd_created_by b = Some u \<or>
      get_member_role s b u \<in> {Some ''owner'', Some ''admin'', Some ''member''}"
    by (auto simp: can_edit_def Let_def)
next
  assume a: "brd_created_by b \<noteq> Some u \<and>
    (\<exists>r\<in>set (board_members s). mem_board_id r = brd_id b \<and> mem_user_id r = u) \<and>
    (\<forall>r\<in>set (board_members s).
        mem_board_id r = brd_id b \<and> mem_user_id r = u \<longrightarrow> mem_role r = Some ''viewer'')"
  let ?P = "\<lambda>r. mem_board_id r = brd_id b \<and> mem_user_id r = u"
  from a obtain r where r: "find ?P (board_members s) = Some r"
    by (cases "find ?P (board_members s)") (auto simp: find_None_iff)
  then have "r \<in> set (board_members s)" "?P r"
    by (auto simp: find_Some_iff)
  with a have "mem_role r = Some ''viewer''" by blast
  with r have "get_member_role s b u = Some ''viewer''"
    by (simp add: get_member_role_def)
  with a show "\<not> can_edit s b u"
    by (simp add: can_edit_def Let_def)
qed

theorem can_edit_roles_witness:
  "\<not> can_edit ex_db ex_board1 3 \<and> can_edit ex_db ex_board1 2 \<and> can_edit ex_db ex_board1 1"
  using can_edit_roles [of ex_db ex_board1 3] can_edit_roles [of ex_db ex_board1 2]
    can_edit_roles [of ex_db ex_board1 1]
  by (simp add: ex_db_def ex_board1_def get_member_role_def)

text \<open>
  Claim C10. Edit permission implies view permission, for every board and every user of
  the \<open>users\<close> table: a role that grants edit rights is read from a membership row,
  which puts the user among the board's \<open>members\<close>, and the creator passes both checks.
\<close>

theorem can_edit_implies_can_view:
  "u \<in> set (users s) \<Longrightarrow> can_edit s b u \<Longrightarrow> can_view s b u"
proof -
  assume u: "u \<in> set (users s)" and e: "can_edit s b u"
  let ?P = "\<lambda>r. mem_board_id r = brd_id b \<and> mem_user_id r = u"
  show ?thesis
  proof (cases "brd_created_by b = Some u")
    case True
    then show ?thesis by (simp add: can_view_def)
  next
    case False
    with e have "get_member_role s b u \<noteq> None"
      by (auto simp: can_edit_def Let_def)
    then obtain r where "find ?P (board_members s) = Some r"
      by (auto simp: get_member_role_def split: option.splits)
    then have "r \<in> set (board_members s)" "?P r"
      by (auto simp: find_Some_iff)
    with u have "u \<in> set (members s b)"
      by (force simp: members_def)
    then show ?thesis by (simp add: can_view_def)
  qed
qed

theorem can_edit_implies_can_view_witness:
  "2 \<in> set (users ex_db) \<and> can_edit ex_db ex_board1 2 \<and> can_view ex_db ex_board1 2"
proof -
  have u: "2 \<in> set (users ex_db)" by (simp add: ex_db_def)
  have e: "can_edit ex_db ex_board1 2"
    by (simp add: can_edit_def get_member_role_def ex_db_def ex_board1_def)
  from u e can_edit_implies_can_view [OF u e] show ?thesis by simp
qed

section \<open>Derived card status\<close>

text \<open>
  Claim C9. \<open>is_overdue\<close> is false whenever \<open>due_complete\<close> is true, also for a due date
  in the past; it is true exactly when a due date is present, lies before the current
  time, and \<open>due_complete\<close> is false.
\<close>

theorem is_overdue_iff:
  "(crd_due_complete c \<longrightarrow> \<not> is_overdue now c) \<and>
   (is_overdue now c \<longleftrightarrow>
      (\<exists>due. crd_due_date c = Some due \<and> due < now) \<and> \<not> crd_due_complete c)"
  by (auto simp: is_overdue_def split: option.splits)

theorem is_overdue_iff_witness:
  "is_overdue 60 ex_card \<and> \<not> is_overdue 60 (ex_card\<lparr>crd_due_complete := True\<rparr>)
   \<and> \<not> is_overdue 50 ex_card"
  using is_overdue_iff [of ex_card 60] is_overdue_iff [of "ex_card\<lparr>crd_due_complete := True\<rparr>" 60]
    is_overdue_iff [of ex_card 50]
  by (simp add: ex_card_def)

section \<open>Ordering\<close>

lemma fold_max_ge:
  fixes x :: int
  shows "x \<le> fold max xs x" and "y \<in> set xs \<Longrightarrow> y \<le> fold max xs x"
  by (simp_all add: Max.set_eq_fold [symmetric])

lemma next_id_gt: "i \<in> set ids \<Longrightarrow> i < next_id ids"
  using fold_max_ge(2) [of i ids 0] by (simp add: next_id_def)

lemma next_id_fresh: "next_id ids \<notin> set ids"
  using next_id_gt [of "next_id ids" ids] by auto









section \<open>Board creation\<close>

lemma add_label_other [simp]:
  "trello_boards (add_label bid nc s) = trello_boards s"
  "trello_lists (add_label bid nc s) = trello_lists s"
  "trello_activities (add_label bid nc s) = trello_activities s"
  by (simp_all add: add_label_def)

lemma add_list_other [simp]:
  "trello_boards (add_list bid ixn s) = trello_boards s"
  "trello_labels (add_list bid ixn s) = trello_labels s"
  "trello_activities (add_list bid ixn s) = trello_activities s"
  by (simp_all add: add_list_def)

lemma fold_add_label_other [simp]:
  "trello_boards (fold (add_label bid) ncs s) = trello_boards s"
  "trello_lists (fold (add_label bid) ncs s) = trello_lists s"
  "trello_activities (fold (add_label bid) ncs s) = trello_activities s"
  by (induction ncs arbitrary: s) simp_all

lemma fold_add_list_other [simp]:
  "trello_boards (fold (add_list bid) ixs s) = trello_boards s"
  "trello_labels (fold (add_list bid) ixs s) = trello_labels s"
  "trello_activities (fold (add_list bid) ixs s) = trello_activities s"
  by (induction ixs arbitrary: s) simp_all

lemma add_label_labels:
  "\<exists>l. trello_labels (add_label bid nc s) = trello_labels s @ [l] \<and> lbl_board_id l = bid"
  by (simp add: add_label_def)

lemma add_list_lists:
  "\<exists>l. trello_lists (add_list bid ixn s) = trello_lists s @ [l] \<and> lst_board_id l = bid \<and>
       lst_position l = int (fst ixn)"
  by (simp add: add_list_def)

lemma fold_add_label_labels:
  "\<exists>ls. trello_labels (fold (add_label bid) ncs s) = trello_labels s @ ls \<and>
        map lbl_board_id ls = replicate (length ncs) bid"
proof (induction ncs arbitrary: s)
  case Nil
  show ?case by simp
next
  case (Cons nc ncs)
  obtain l where l: "trello_labels (add_label bid nc s) = trello_labels s @ [l]"
    "lbl_board_id l = bid"
    using add_label_labels by blast
  from Cons [of "add_label bid nc s"] obtain ls where ls:
    "trello_labels (fold (add_label bid) ncs (add_label bid nc s))
       = trello_labels (add_label bid nc s) @ ls"
    "map lbl_board_id ls = replicate (length ncs) bid"
    by blast
  have "trello_labels (fold (add_label bid) (nc # ncs) s) = trello_labels s @ (l # ls)"
    using l(1) ls(1) by simp
  moreover have "map lbl_board_id (l # ls) = replicate (length (nc # ncs)) bid"
    using l(2) ls(2) by simp
  ultimately show ?case by blast
qed

lemma fold_add_list_lists:
  "\<exists>ts. trello_lists (fold (add_list bid) ixs s) = trello_lists s @ ts \<and>
        map lst_board_id ts = replicate (length ixs) bid \<and>
        map lst_position ts = map (\<lambda>ixn. int (fst ixn)) ixs"
proof (induction ixs arbitrary: s)
  case Nil
  show ?case by simp
next
  case (Cons ixn ixs)
  obtain l where l: "trello_lists (add_list bid ixn s) = trello_lists s @ [l]"
    "lst_board_id l = bid" "lst_position l = int (fst ixn)"
    using add_list_lists by blast
  from Cons [of "add_list bid ixn s"] obtain ts where ts:
    "trello_lists (fold (add_list bid) ixs (add_list bid ixn s))
       = trello_lists (add_list bid ixn s) @ ts"
    "map lst_board_id ts = replicate (length ixs) bid"
    "map lst_position ts = map (\<lambda>ixn. int (fst ixn)) ixs"
    by blast
  have "trello_lists (fold (add_list bid) (ixn # ixs) s) = trello_lists s @ (l # ts)"
    using l(1) ts(1) by simp
  moreover have "map lst_board_id (l # ts) = replicate (length (ixn # ixs)) bid"
    using l(2) ts(2) by simp
  moreover have "map lst_position (l # ts) = map (\<lambda>ixn. int (fst ixn)) (ixn # ixs)"
    using l(3) ts(3) by simp
  ultimately show ?case by blast
qed

lemma log_activity_fields [simp]:
  "trello_boards (log_activity s u bid act tt ti d) = trello_boards s"
  "trello_labels (log_activity s u bid act tt ti d) = trello_labels s"
  "trello_lists (log_activity s u bid act tt ti d) = trello_lists s"
  "trello_cards (log_activity s u bid act tt ti d) = trello_cards s"
  "trello_checklist_items (log_activity s u bid act tt ti d) = trello_checklist_items s"
  "trello_comments (log_activity s u bid act tt ti d) = trello_comments s"
  by (simp_all add: log_activity_def)

lemma create_board_post_result:
  assumes "create_board s u POST form = Inr (r, s')"
  obtains b ls ts a where
    "r = Redirect_view_board (brd_id b)"
    "brd_id b = next_id (map brd_id (trello_boards s))"
    "trello_boards s' = trello_boards s @ [b]"
    "trello_labels s' = trello_labels s @ ls"
    "map lbl_board_id ls = replicate 6 (brd_id b)"
    "trello_lists s' = trello_lists s @ ts"
    "map lst_board_id ts = replicate 3 (brd_id b)"
    "map lst_position ts = [0, 1, 2]"
    "trello_activities s' = trello_activities s @ [a]"
    "act_board_id a = brd_id b" "act_action a = ''created_board''"
proof -
  from assms obtain name where name: "form_name form = Some name"
    by (cases "form_name form") (simp_all add: create_board_def)
  define bid where "bid = next_id (map brd_id (trello_boards s))"
  define b where "b = \<lparr>brd_id = bid, brd_name = name,
      brd_description = form_description form,
      brd_is_private = (form_is_private form = Some ''on''),
      brd_is_archived = False, brd_created_by = Some u\<rparr>"
  define s1 where "s1 = s\<lparr>trello_boards := trello_boards s @ [b]\<rparr>"
  define s2 where "s2 = fold (add_label bid) default_labels s1"
  define s3 where "s3 = fold (add_list bid) (enumerate 0 default_lists) s2"
  have bb: "brd_id b = bid" by (simp add: b_def)
  from assms name have r: "r = Redirect_view_board bid"
    and s': "s' = log_activity s3 u bid ''created_board'' (Some ''board'') (Some bid) None"
    by (simp_all add: create_board_def Let_def bid_def b_def s1_def s2_def s3_def)
  obtain ls where ls: "trello_labels s2 = trello_labels s1 @ ls"
    "map lbl_board_id ls = replicate (length default_labels) bid"
    unfolding s2_def using fold_add_label_labels [of bid default_labels s1] by blast
  obtain ts where ts: "trello_lists s3 = trello_lists s2 @ ts"
    "map lst_board_id ts = replicate (length (enumerate 0 default_lists)) bid"
    "map lst_position ts = map (\<lambda>ixn. int (fst ixn)) (enumerate 0 default_lists)"
    unfolding s3_def using fold_add_list_lists [of bid "enumerate 0 default_lists" s2] by blast
  have n6: "length default_labels = 6" by (simp add: default_labels_def)
  have n3: "length (enumerate 0 default_lists) = 3" by (simp add: default_lists_def)
  have pos: "map (\<lambda>ixn. int (fst ixn)) (enumerate 0 default_lists) = [0, 1, 2]"
    by (simp add: default_lists_def)
  have boards: "trello_boards s' = trello_boards s @ [b]"
    by (simp add: s' s3_def s2_def s1_def)
  have labels: "trello_labels s' = trello_labels s @ ls"
    using ls(1) by (simp add: s' s3_def s1_def)
  have lists: "trello_lists s' = trello_lists s @ ts"
    using ts(1) by (simp add: s' s2_def s1_def)
  have "trello_activities s3 = trello_activities s"
    by (simp add: s3_def s2_def s1_def)
  then obtain a where acts: "trello_activities s' = trello_activities s @ [a]"
      "act_board_id a = bid" "act_action a = ''created_board''"
    by (simp add: s' log_activity_def)
  show ?thesis
  proof (rule that [of b ls ts a])
    show "r = Redirect_view_board (brd_id b)" using r bb by simp
    show "brd_id b = next_id (map brd_id (trello_boards s))" using bb bid_def by simp
    show "trello_boards s' = trello_boards s @ [b]" by (rule boards)
    show "trello_labels s' = trello_labels s @ ls" by (rule labels)
    show "map lbl_board_id ls = replicate 6 (brd_id b)" using ls(2) n6 bb by simp
    show "trello_lists s' = trello_lists s @ ts" by (rule lists)
    show "map lst_board_id ts = replicate 3 (brd_id b)" using ts(2) n3 bb by simp
    show "map lst_position ts = [0, 1, 2]" using ts(3) pos by simp
    show "trello_activities s' = trello_activities s @ [a]" by (rule acts(1))
    show "act_board_id a = brd_id b" using acts(2) bb by simp
    show "act_action a = ''created_board''" by (rule acts(3))
  qed
qed

lemma filter_fk_empty:
  assumes "\<forall>x\<in>set xs. f x \<in> B" and "k \<notin> B"
  shows "filter (\<lambda>x. f x = k) xs = []"
  using assms by (auto simp: filter_empty_conv)

lemma filter_all_eq:
  assumes "map f xs = replicate n k"
  shows "filter (\<lambda>x. f x = k) xs = xs"
proof -
  have "f x = k" if "x \<in> set xs" for x
  proof -
    from that have "f x \<in> set (map f xs)" by simp
    with assms show ?thesis by simp
  qed
  then show ?thesis by simp
qed

text \<open>
  Claim C5. In a database whose labels, lists and activity entries all reference existing
  boards, a successful board creation commits, in one step, a new board with a fresh
  key, and afterwards exactly 6 labels belong to it, exactly 3 lists belong to it, at
  positions 0, 1, 2, and exactly one activity entry belongs to it, with the action
  \<open>created_board\<close>.
\<close>

theorem create_board_defaults:
  assumes "create_board s u POST form = Inr (r, s')"
    and "\<forall>l\<in>set (trello_labels s). lbl_board_id l \<in> brd_id ` set (trello_boards s)"
    and "\<forall>l\<in>set (trello_lists s). lst_board_id l \<in> brd_id ` set (trello_boards s)"
    and "\<forall>a\<in>set (trello_activities s). act_board_id a \<in> brd_id ` set (trello_boards s)"
  shows "\<exists>b. r = Redirect_view_board (brd_id b) \<and>
           trello_boards s' = trello_boards s @ [b] \<and>
           brd_id b \<notin> brd_id ` set (trello_boards s) \<and>
           length (filter (\<lambda>l. lbl_board_id l = brd_id b) (trello_labels s')) = 6 \<and>
           map lst_position (filter (\<lambda>l. lst_board_id l = brd_id b) (trello_lists s')) = [0, 1, 2] \<and>
           map act_action (filter (\<lambda>a. act_board_id a = brd_id b) (trello_activities s'))
             = [''created_board'']"
proof -
  obtain b ls ts a where
    r: "r = Redirect_view_board (brd_id b)"
    and bid: "brd_id b = next_id (map brd_id (trello_boards s))"
    and boards: "trello_boards s' = trello_boards s @ [b]"
    and labels: "trello_labels s' = trello_labels s @ ls" "map lbl_board_id ls = replicate 6 (brd_id b)"
    and lists: "trello_lists s' = trello_lists s @ ts" "map lst_board_id ts = replicate 3 (brd_id b)"
      "map lst_position ts = [0, 1, 2]"
    and acts: "trello_activities s' = trello_activities s @ [a]" "act_board_id a = brd_id b"
      "act_action a = ''created_board''"
    by (rule create_board_post_result [OF assms(1)])
  from bid have fresh: "brd_id b \<notin> brd_id ` set (trello_boards s)"
    using next_id_fresh [of "map brd_id (trello_boards s)"] by simp
  have "filter (\<lambda>l. lbl_board_id l = brd_id b) (trello_labels s') = ls"
    using labels filter_fk_empty [OF assms(2) fresh] filter_all_eq [OF labels(2)] by simp
  moreover have "length ls = 6"
    using labels(2) by (metis length_map length_replicate)
  moreover have "filter (\<lambda>l. lst_board_id l = brd_id b) (trello_lists s') = ts"
    using lists filter_fk_empty [OF assms(3) fresh] filter_all_eq [OF lists(2)] by simp
  moreover have "filter (\<lambda>a. act_board_id a = brd_id b) (trello_activities s') = [a]"
    using acts filter_fk_empty [OF assms(4) fresh] by simp
  ultimately show ?thesis
    using r boards fresh lists(3) acts(3) by (intro exI [of _ b]) simp
qed

lemma create_board_post_succeeds:
  "form_name form = Some name \<Longrightarrow> \<exists>r s'. create_board s u POST form = Inr (r, s')"
  unfolding create_board_def by (simp only: http_method.case option.case Let_def) blast

lemma ex_create_board: "\<exists>r s'. create_board ex_db 4 POST ex_form = Inr (r, s')"
  by (rule create_board_post_succeeds [of _ "''Swaps''"]) (simp add: ex_form_def)

theorem create_board_defaults_witness:
  "\<exists>s'. create_board ex_db 4 POST ex_form = Inr (Redirect_view_board 3, s') \<and>
      map brd_id (trello_boards s') = [1, 2, 3] \<and>
      length (filter (\<lambda>l. lbl_board_id l = 3) (trello_labels s')) = 6 \<and>
      map lst_position (filter (\<lambda>l. lst_board_id l = 3) (trello_lists s')) = [0, 1, 2] \<and>
      map act_action (filter (\<lambda>a. act_board_id a = 3) (trello_activities s')) = [''created_board'']"
proof -
  obtain r s' where c: "create_board ex_db 4 POST ex_form = Inr (r, s')"
    using ex_create_board by blast
  have fk: "\<forall>l\<in>set (trello_labels ex_db). lbl_board_id l \<in> brd_id ` set (trello_boards ex_db)"
    "\<forall>l\<in>set (trello_lists ex_db). lst_board_id l \<in> brd_id ` set (trello_boards ex_db)"
    "\<forall>a\<in>set (trello_activities ex_db). act_board_id a \<in> brd_id ` set (trello_boards ex_db)"
    by (simp_all add: ex_db_def ex_board1_def ex_board2_def)
  from create_board_defaults [OF c fk] obtain b where
    b: "r = Redirect_view_board (brd_id b) \<and>
        trello_boards s' = trello_boards ex_db @ [b] \<and>
        brd_id b \<notin> brd_id ` set (trello_boards ex_db) \<and>
        length (filter (\<lambda>l. lbl_board_id l = brd_id b) (trello_labels s')) = 6 \<and>
        map lst_position (filter (\<lambda>l. lst_board_id l = brd_id b) (trello_lists s')) = [0, 1, 2] \<and>
        map act_action (filter (\<lambda>a. act_board_id a = brd_id b) (trello_activities s'))
          = [''created_board'']" ..
  have "next_id (map brd_id (trello_boards ex_db)) = 3"
    by (simp add: next_id_def ex_db_def ex_board1_def ex_board2_def)
  moreover obtain b' ls ts a where "r = Redirect_view_board (brd_id b')"
    "brd_id b' = next_id (map brd_id (trello_boards ex_db))"
    "trello_boards s' = trello_boards ex_db @ [b']"
    "trello_labels s' = trello_labels ex_db @ ls"
    "map lbl_board_id ls = replicate 6 (brd_id b')"
    "trello_lists s' = trello_lists ex_db @ ts"
    "map lst_board_id ts = replicate 3 (brd_id b')"
    "map lst_position ts = [0, 1, 2]"
    "trello_activities s' = trello_activities ex_db @ [a]"
    "act_board_id a = brd_id b'" "act_action a = ''created_board''"
    by (rule create_board_post_result [OF c])
  ultimately have r3: "r = Redirect_view_board 3" by simp
  with b have b3: "brd_id b = 3" by simp
  have "map brd_id (trello_boards s') = [1, 2, 3]"
    using b b3 by (simp add: ex_db_def ex_board1_def ex_board2_def)
  with b b3 c r3 show ?thesis
    by (intro exI [of _ s']) simp
qed


section \<open>Row lookup after a write\<close>

lemma find_map_replace:
  assumes "find (\<lambda>x. key x = k) xs = Some old" and "key y = k"
  shows "find (\<lambda>x. key x = k) (map (\<lambda>x. if key x = k then y else x) xs) = Some y"
  using assms by (induction xs) (auto split: if_splits)

lemma find_key: "find (\<lambda>x. key x = k) xs = Some y \<Longrightarrow> key y = k \<and> y \<in> set xs"
  by (auto simp: find_Some_iff)

lemma find_filter_removed: "find (\<lambda>x. key x = k) (filter (\<lambda>x. key x \<noteq> k) xs) = None"
  by (simp add: find_None_iff)

lemma board_of_list_id: "board_of_list s l = Inr b \<Longrightarrow> brd_id b = lst_board_id l"
  using find_key [of brd_id "lst_board_id l" "trello_boards s" b]
  by (auto simp: board_of_list_def get_board_def split: option.splits)

lemma get_card_write_card:
  assumes "get_card s i = Some c" and "crd_id c' = crd_id c"
  shows "get_card (write_card c' s) i = Some c'"
proof -
  from assms(1) have k: "crd_id c = i"
    using find_key [of crd_id i "trello_cards s" c] by (simp add: get_card_def)
  with assms(2) have k': "crd_id c' = i" by simp
  show ?thesis
    using find_map_replace [of crd_id i "trello_cards s" c c'] assms(1) k'
    by (simp add: get_card_def write_card_def)
qed

section \<open>Checklist items\<close>

lemma toggle_checklist_item_result:
  assumes "toggle_checklist_item s u now i = Inr s'"
  obtains item where "get_checklist_item s i = Some item"
    "s' = write_checklist_item
            (if itm_is_complete item
             then item\<lparr>itm_is_complete := False, itm_completed_by := None, itm_completed_at := None\<rparr>
             else item\<lparr>itm_is_complete := True, itm_completed_by := Some u,
                       itm_completed_at := Some now\<rparr>) s"
proof -
  from assms obtain item where item: "get_checklist_item s i = Some item"
    by (cases "get_checklist_item s i") (simp_all add: toggle_checklist_item_def)
  from assms item have
    "s' = write_checklist_item
            (if itm_is_complete item
             then item\<lparr>itm_is_complete := False, itm_completed_by := None, itm_completed_at := None\<rparr>
             else item\<lparr>itm_is_complete := True, itm_completed_by := Some u,
                       itm_completed_at := Some now\<rparr>) s"
    by (auto simp: toggle_checklist_item_def Let_def split: option.splits sum.splits if_splits)
  with item show ?thesis by (rule that)
qed

lemma ex_toggle: "\<exists>s'. toggle_checklist_item ex_db 2 77 40 = Inr s'"
  by (simp add: toggle_checklist_item_def get_checklist_item_def get_checklist_def get_card_def
      board_of_card_def list_of_card_def board_of_list_def get_list_def get_board_def
      check_board_access_def can_edit_def get_member_role_def Let_def
      ex_db_def ex_item_def ex_card_def ex_board1_def ex_board2_def)

text \<open>
  Claim C6. After every toggle of a checklist item that goes through, the item's
  completion flag is flipped; when it is now complete, \<open>completed_by\<close> is the current
  user and \<open>completed_at\<close> the current time, and when it is now incomplete both are
  \<open>None\<close>. So the toggled item satisfies the completion invariant, and the invariant
  over all items of the table is preserved.
\<close>

theorem toggle_completion_consistent:
  assumes "toggle_checklist_item s u now i = Inr s'"
  shows "\<exists>item item'.
           get_checklist_item s i = Some item \<and> get_checklist_item s' i = Some item' \<and>
           itm_is_complete item' = (\<not> itm_is_complete item) \<and>
           (itm_is_complete item' \<longrightarrow>
              itm_completed_by item' = Some u \<and> itm_completed_at item' = Some now) \<and>
           (\<not> itm_is_complete item' \<longrightarrow>
              itm_completed_by item' = None \<and> itm_completed_at item' = None) \<and>
           completion_consistent item' \<and>
           ((\<forall>x\<in>set (trello_checklist_items s). completion_consistent x) \<longrightarrow>
            (\<forall>x\<in>set (trello_checklist_items s'). completion_consistent x))"
proof -
  define tog :: "TrelloChecklistItem \<Rightarrow> TrelloChecklistItem" where "tog item =
     (if itm_is_complete item
      then item\<lparr>itm_is_complete := False, itm_completed_by := None, itm_completed_at := None\<rparr>
      else item\<lparr>itm_is_complete := True, itm_completed_by := Some u,
                itm_completed_at := Some now\<rparr>)" for item
  obtain item where item: "get_checklist_item s i = Some item"
    and s': "s' = write_checklist_item (tog item) s"
    unfolding tog_def by (rule toggle_checklist_item_result [OF assms])
  from item have k: "itm_id item = i"
    using find_key [of itm_id i "trello_checklist_items s" item]
    by (simp add: get_checklist_item_def)
  then have kt: "itm_id (tog item) = i" by (simp add: tog_def)
  have items: "trello_checklist_items s' =
      map (\<lambda>x. if itm_id x = i then tog item else x) (trello_checklist_items s)"
    by (simp add: s' write_checklist_item_def kt)
  have get': "get_checklist_item s' i = Some (tog item)"
    using find_map_replace [of itm_id i "trello_checklist_items s" item "tog item"] item kt
    by (simp add: get_checklist_item_def items)
  have cons: "completion_consistent (tog item)"
    by (simp add: tog_def completion_consistent_def)
  have inv: "\<forall>x\<in>set (trello_checklist_items s'). completion_consistent x"
    if "\<forall>x\<in>set (trello_checklist_items s). completion_consistent x"
    using that cons by (auto simp: items)
  have "itm_is_complete (tog item) = (\<not> itm_is_complete item)"
    "itm_is_complete (tog item) \<longrightarrow>
       itm_completed_by (tog item) = Some u \<and> itm_completed_at (tog item) = Some now"
    "\<not> itm_is_complete (tog item) \<longrightarrow>
       itm_completed_by (tog item) = None \<and> itm_completed_at (tog item) = None"
    by (simp_all add: tog_def)
  with item get' cons inv show ?thesis
    by (intro exI [of _ item] exI [of _ "tog item"]) simp
qed

theorem toggle_completion_consistent_witness:
  "\<exists>s' item'. toggle_checklist_item ex_db 2 77 40 = Inr s' \<and>
      get_checklist_item s' 40 = Some item' \<and> itm_is_complete item' \<and>
      itm_completed_by item' = Some 2 \<and> itm_completed_at item' = Some 77"
proof -
  obtain s' where t: "toggle_checklist_item ex_db 2 77 40 = Inr s'"
    using ex_toggle by blast
  have g: "get_checklist_item ex_db 40 = Some ex_item"
    by (simp add: get_checklist_item_def ex_db_def ex_item_def)
  from toggle_completion_consistent [OF t] obtain item item' where
    r: "get_checklist_item ex_db 40 = Some item \<and> get_checklist_item s' 40 = Some item' \<and>
        itm_is_complete item' = (\<not> itm_is_complete item) \<and>
        (itm_is_complete item' \<longrightarrow>
           itm_completed_by item' = Some 2 \<and> itm_completed_at item' = Some 77) \<and>
        (\<not> itm_is_complete item' \<longrightarrow>
           itm_completed_by item' = None \<and> itm_completed_at item' = None) \<and>
        completion_consistent item' \<and>
        ((\<forall>x\<in>set (trello_checklist_items ex_db). completion_consistent x) \<longrightarrow>
         (\<forall>x\<in>set (trello_checklist_items s'). completion_consistent x))"
    by (elim exE)
  with g have "item = ex_item" by simp
  with r have "itm_is_complete item'" by (simp add: ex_item_def)
  with r t show ?thesis
    by (intro exI [of _ s'] exI [of _ item']) simp
qed

section \<open>Moving cards\<close>

lemma move_card_cross_board_result:
  assumes "get_card s i = Some c"
    and "list_of_card s c = Inr cur"
    and "board_of_list s cur = Inr board"
    and "data_list_id data = Some list_id"
    and "get_list s list_id = Some new_list"
    and "lst_board_id new_list \<noteq> lst_board_id cur"
  shows "move_card s u i data =
           (if \<not> can_edit s board u then Inl Forbidden403
            else case data_position data of
                   None \<Rightarrow> Inr (write_card c s)
                 | Some p \<Rightarrow>
                    if sql_integer p then Inr (write_card (c\<lparr>crd_position := p\<rparr>) s)
                    else Inl ServerError500)"
  using assms board_of_list_id [OF assms(3)]
  by (simp add: move_card_def check_board_access_def Let_def split: option.splits)

lemma move_card_no_list_result:
  assumes "get_card s i = Some c"
    and "list_of_card s c = Inr cur"
    and "board_of_list s cur = Inr board"
    and "data_list_id data = None"
  shows "move_card s u i data =
           (if \<not> can_edit s board u then Inl Forbidden403
            else case data_position data of
                   None \<Rightarrow> Inr (write_card c s)
                 | Some p \<Rightarrow>
                    if sql_integer p then Inr (write_card (c\<lparr>crd_position := p\<rparr>) s)
                    else Inl ServerError500)"
  using assms
  by (simp add: move_card_def check_board_access_def Let_def split: option.splits)

lemma move_card_no_board:
  assumes "get_card s i = Some c"
    and "list_of_card s c = Inr cur"
    and "board_of_list s cur = Inl e"
  shows "move_card s u i data = Inl e"
  using assms by (simp add: move_card_def)

text \<open>
  Claim C7. When the target list of a move request exists and belongs to another board
  than the card's current list, the card read again after the request is still in its
  old list and no activity entry is written. The foreign target raises no error: the
  request is answered exactly as the same request without \<open>list_id\<close>, and for a user
  who may edit the card's board it succeeds whenever the position, if one is given,
  is one the column can store.
\<close>

theorem move_card_cross_board_noop:
  assumes "get_card s i = Some c"
    and "list_of_card s c = Inr cur"
    and "data_list_id data = Some list_id"
    and "get_list s list_id = Some new_list"
    and "lst_board_id new_list \<noteq> lst_board_id cur"
  shows "(\<forall>s'. move_card s u i data = Inr s' \<longrightarrow>
            (\<exists>c'. get_card s' i = Some c' \<and> crd_list_id c' = crd_list_id c) \<and>
            trello_activities s' = trello_activities s) \<and>
         move_card s u i data = move_card s u i (data\<lparr>data_list_id := None\<rparr>) \<and>
         (\<forall>board. board_of_list s cur = Inr board \<and> can_edit s board u \<and>
                  (\<forall>p. data_position data = Some p \<longrightarrow> sql_integer p) \<longrightarrow>
            (\<exists>s'. move_card s u i data = Inr s'))"
proof (intro conjI allI impI)
  fix s'
  assume m: "move_card s u i data = Inr s'"
  from m assms(1,2) obtain board where b: "board_of_list s cur = Inr board"
    by (cases "board_of_list s cur") (simp_all add: move_card_def)
  define c2 where "c2 = (case data_position data of None \<Rightarrow> c | Some p \<Rightarrow> c\<lparr>crd_position := p\<rparr>)"
  from m have s': "s' = write_card c2 s"
    unfolding move_card_cross_board_result [OF assms(1,2) b assms(3-5)] c2_def
    by (simp split: if_splits option.splits)
  have c2: "crd_id c2 = crd_id c" "crd_list_id c2 = crd_list_id c"
    by (simp_all add: c2_def split: option.splits)
  from get_card_write_card [OF assms(1) c2(1)] c2(2) s'
  show "\<exists>c'. get_card s' i = Some c' \<and> crd_list_id c' = crd_list_id c"
    by simp
  show "trello_activities s' = trello_activities s"
    by (simp add: s' write_card_def)
next
  show "move_card s u i data = move_card s u i (data\<lparr>data_list_id := None\<rparr>)"
  proof (cases "board_of_list s cur")
    case (Inl e)
    show ?thesis
      by (simp add: move_card_no_board [OF assms(1,2) Inl])
  next
    case (Inr board)
    have n: "data_list_id (data\<lparr>data_list_id := None\<rparr>) = None" by simp
    show ?thesis
      unfolding move_card_cross_board_result [OF assms(1,2) Inr assms(3-5)]
        move_card_no_list_result [OF assms(1,2) Inr n]
      by simp
  qed
next
  fix board
  assume "board_of_list s cur = Inr board \<and> can_edit s board u \<and>
          (\<forall>p. data_position data = Some p \<longrightarrow> sql_integer p)"
  then have b: "board_of_list s cur = Inr board" and e: "can_edit s board u"
    and p: "\<forall>p. data_position data = Some p \<longrightarrow> sql_integer p"
    by simp_all
  show "\<exists>s'. move_card s u i data = Inr s'"
    unfolding move_card_cross_board_result [OF assms(1,2) b assms(3-5)] using e p
    by (simp split: option.splits)
qed

theorem move_card_cross_board_noop_witness:
  "\<exists>s' c'. move_card ex_db 2 100 \<lparr>data_list_id = Some 20, data_position = Some 9\<rparr> = Inr s' \<and>
      move_card ex_db 2 100 \<lparr>data_list_id = None, data_position = Some 9\<rparr> = Inr s' \<and>
      get_card s' 100 = Some c' \<and> crd_list_id c' = 10 \<and> trello_activities s' = []"
proof -
  let ?data = "\<lparr>data_list_id = Some 20, data_position = Some 9\<rparr>"
  let ?cur = "\<lparr>lst_id = 10, lst_board_id = 1, lst_name = ''To Do'', lst_position = 0,
         lst_is_archived = False\<rparr>"
  let ?new = "\<lparr>lst_id = 20, lst_board_id = 2, lst_name = ''Inbox'', lst_position = 0,
         lst_is_archived = False\<rparr>"
  have h1: "get_card ex_db 100 = Some ex_card"
    by (simp add: get_card_def ex_db_def ex_card_def)
  have h2: "list_of_card ex_db ex_card = Inr ?cur"
    by (simp add: list_of_card_def get_list_def ex_db_def ex_card_def)
  have h3: "data_list_id ?data = Some 20" by simp
  have h4: "get_list ex_db 20 = Some ?new"
    by (simp add: get_list_def ex_db_def)
  have h5: "lst_board_id ?new \<noteq> lst_board_id ?cur" by simp
  have b: "board_of_list ex_db ?cur = Inr ex_board1"
    by (simp add: board_of_list_def get_board_def ex_db_def ex_board1_def)
  have e: "can_edit ex_db ex_board1 2"
    by (simp add: can_edit_def get_member_role_def ex_db_def ex_board1_def)
  have p: "\<forall>p. data_position ?data = Some p \<longrightarrow> sql_integer p"
    by (simp add: sql_integer_def)
  note inst = move_card_cross_board_noop [OF h1 h2 h3 h4 h5, of 2]
  from inst b e p obtain s' where m: "move_card ex_db 2 100 ?data = Inr s'"
    by blast
  from inst have "move_card ex_db 2 100 ?data = move_card ex_db 2 100 (?data\<lparr>data_list_id := None\<rparr>)"
    by (elim conjE)
  with m have m': "move_card ex_db 2 100 \<lparr>data_list_id = None, data_position = Some 9\<rparr> = Inr s'"
    by simp
  from inst m obtain c' where "get_card s' 100 = Some c'" "crd_list_id c' = crd_list_id ex_card"
    "trello_activities s' = trello_activities ex_db"
    by blast
  with m m' show ?thesis
    by (intro exI [of _ s'] exI [of _ c']) (simp add: ex_card_def ex_db_def)
qed

section \<open>Comments\<close>

text \<open>
  Claim C8. For an existing comment on a card of a board, deletion succeeds, and removes
  the comment, exactly for the comment's author and for an owner of the board (its
  creator or a member of role owner); every other user gets the permission error, also
  one who may edit the board.
\<close>

theorem delete_comment_permission:
  assumes "get_comment s i = Some comment"
    and "get_card s (cmt_card_id comment) = Some c"
    and "board_of_card s c = Inr board"
  shows "(cmt_user_id comment = u \<or> is_owner s board u \<longrightarrow>
            (\<exists>s'. delete_comment s u i = Inr s' \<and> get_comment s' i = None)) \<and>
         (cmt_user_id comment \<noteq> u \<and> \<not> is_owner s board u \<longrightarrow>
            delete_comment s u i = Inl Forbidden403)"
proof -
  from assms(1) have k: "cmt_id comment = i"
    using find_key [of cmt_id i "trello_comments s" comment] by (simp add: get_comment_def)
  have eq: "delete_comment s u i =
      (if cmt_user_id comment \<noteq> u \<and> \<not> is_owner s board u then Inl Forbidden403
       else Inr (s\<lparr>trello_comments := filter (\<lambda>x. cmt_id x \<noteq> i) (trello_comments s)\<rparr>))"
    using assms k by (simp add: delete_comment_def)
  have gone: "get_comment (s\<lparr>trello_comments := filter (\<lambda>x. cmt_id x \<noteq> i) (trello_comments s)\<rparr>) i
      = None"
    using find_filter_removed [of cmt_id i "trello_comments s"] by (simp add: get_comment_def)
  show ?thesis
    unfolding eq using gone by simp
qed

theorem delete_comment_permission_witness:
  "can_edit ex_db ex_board1 4 \<and> delete_comment ex_db 4 7 = Inl Forbidden403 \<and>
   (\<exists>s'. delete_comment ex_db 2 7 = Inr s' \<and> get_comment s' 7 = None) \<and>
   (\<exists>s'. delete_comment ex_db 1 7 = Inr s' \<and> get_comment s' 7 = None)"
proof -
  let ?comment = "\<lparr>cmt_id = 7, cmt_card_id = 100, cmt_user_id = 2, cmt_content = ''ok''\<rparr>"
  have h1: "get_comment ex_db 7 = Some ?comment"
    by (simp add: get_comment_def ex_db_def)
  have h2: "get_card ex_db (cmt_card_id ?comment) = Some ex_card"
    by (simp add: get_card_def ex_db_def ex_card_def)
  have h3: "board_of_card ex_db ex_card = Inr ex_board1"
    by (simp add: board_of_card_def list_of_card_def board_of_list_def get_list_def get_board_def
        ex_db_def ex_card_def ex_board1_def)
  have e: "can_edit ex_db ex_board1 4"
    by (simp add: can_edit_def get_member_role_def ex_db_def ex_board1_def)
  have o4: "\<not> is_owner ex_db ex_board1 4"
    by (simp add: is_owner_def get_member_role_def ex_db_def ex_board1_def)
  have o1: "is_owner ex_db ex_board1 1"
    by (simp add: is_owner_def ex_board1_def)
  from delete_comment_permission [OF h1 h2 h3, of 4] o4
  have "delete_comment ex_db 4 7 = Inl Forbidden403" by simp
  moreover from delete_comment_permission [OF h1 h2 h3, of 2]
  have "\<exists>s'. delete_comment ex_db 2 7 = Inr s' \<and> get_comment s' 7 = None" by simp
  moreover from delete_comment_permission [OF h1 h2 h3, of 1] o1
  have "\<exists>s'. delete_comment ex_db 1 7 = Inr s' \<and> get_comment s' 7 = None" by simp
  ultimately show ?thesis using e by simp
qed

section \<open>Card titles\<close>

lemma create_card_none_result:
  assumes "get_list s list_id = Some lst" and "board_of_list s lst = Inr board"
  shows "create_card s u list_id None =
           (if \<not> can_edit s board u then Inl Forbidden403
            else if \<not> sql_integer (py_or (sql_max (map crd_position
                       (filter (\<lambda>c. crd_list_id c = list_id) (trello_cards s)))) 0 + 1)
            then Inl ServerError500
            else Inr (log_activity
                   (s\<lparr>trello_cards := trello_cards s @
                        [\<lparr>crd_id = next_id (map crd_id (trello_cards s)),
                          crd_list_id = list_id, crd_title = ''New Card'',
                          crd_description = None,
                          crd_position = py_or (sql_max (map crd_position
                            (filter (\<lambda>c. crd_list_id c = list_id) (trello_cards s)))) 0 + 1,
                          crd_due_date = None, crd_due_complete = False,
                          crd_is_archived = False, crd_created_by = Some u\<rparr>]\<rparr>)
                   u (brd_id board) ''created_card'' (Some ''card'') None
                   (Some [(''title'', ''New Card'')])))"
  using assms by (simp add: create_card_def check_board_access_def Let_def)

text \<open>
  Claim C3, as stated: creating a card without a title is rejected and writes nothing.
  It fails: member 2 of board 1 posts no title to list 11, and the card is committed
  with the title \<open>New Card\<close>, together with its activity entry.
\<close>

theorem create_card_missing_title_counterexample:
  "create_card ex_db 2 11 None =
     Inr (ex_db\<lparr>trello_cards :=
                 [ex_card,
                  \<lparr>crd_id = 101, crd_list_id = 11, crd_title = ''New Card'',
                    crd_description = None, crd_position = 1, crd_due_date = None,
                    crd_due_complete = False, crd_is_archived = False,
                    crd_created_by = Some 2\<rparr>],
               trello_activities :=
                 [\<lparr>act_id = 1, act_board_id = 1, act_user_id = Some 2,
                   act_action = ''created_card'', act_target_type = Some ''card'',
                   act_target_id = None,
                   act_details = Some [(''title'', ''New Card'')]\<rparr>]\<rparr>)"
  by (simp add: create_card_def get_list_def board_of_list_def get_board_def
      check_board_access_def can_edit_def get_member_role_def log_activity_def next_id_def
      sql_integer_def Let_def ex_db_def ex_card_def ex_board1_def ex_board2_def)

text \<open>
  Claim C3, amended. A request without a title is not rejected for it: it is answered
  exactly as the same request with the title \<open>New Card\<close>. Whenever it succeeds, one card
  is appended, in the requested list and under that title, and one activity entry is
  appended, with the action \<open>created_card\<close> and that title as its details. It succeeds
  whenever the list and its board exist, the user may edit the board and the position
  after the list's last one is one the column can store.
\<close>

theorem create_card_default_title:
  "create_card s u list_id None = create_card s u list_id (Some ''New Card'') \<and>
   (\<forall>s'. create_card s u list_id None = Inr s' \<longrightarrow>
      (\<exists>c a. trello_cards s' = trello_cards s @ [c] \<and>
             crd_title c = ''New Card'' \<and> crd_list_id c = list_id \<and>
             trello_activities s' = trello_activities s @ [a] \<and>
             act_action a = ''created_card'' \<and>
             act_details a = Some [(''title'', ''New Card'')])) \<and>
   (get_list s list_id = Some lst \<and> board_of_list s lst = Inr board \<and> can_edit s board u \<and>
    sql_integer (py_or (sql_max (map crd_position
       (filter (\<lambda>c. crd_list_id c = list_id) (trello_cards s)))) 0 + 1)
      \<longrightarrow> (\<exists>s'. create_card s u list_id None = Inr s'))"
proof (intro conjI allI impI)
  show "create_card s u list_id None = create_card s u list_id (Some ''New Card'')"
    by (simp add: create_card_def Let_def split: option.splits sum.splits)
next
  fix s'
  assume r: "create_card s u list_id None = Inr s'"
  then obtain l where l: "get_list s list_id = Some l"
    by (cases "get_list s list_id") (simp_all add: create_card_def)
  with r obtain b where b: "board_of_list s l = Inr b"
    by (cases "board_of_list s l") (simp_all add: create_card_def)
  define c where "c = \<lparr>crd_id = next_id (map crd_id (trello_cards s)),
       crd_list_id = list_id, crd_title = ''New Card'', crd_description = None,
       crd_position = py_or (sql_max (map crd_position
           (filter (\<lambda>c. crd_list_id c = list_id) (trello_cards s)))) 0 + 1,
       crd_due_date = None, crd_due_complete = False, crd_is_archived = False,
       crd_created_by = Some u\<rparr>"
  define a where "a = \<lparr>act_id = next_id (map act_id (trello_activities s)),
       act_board_id = brd_id b, act_user_id = Some u, act_action = ''created_card'',
       act_target_type = Some ''card'', act_target_id = None,
       act_details = Some [(''title'', ''New Card'')]\<rparr>"
  from r have s': "s' = log_activity (s\<lparr>trello_cards := trello_cards s @ [c]\<rparr>) u (brd_id b)
       ''created_card'' (Some ''card'') None (Some [(''title'', ''New Card'')])"
    unfolding create_card_none_result [OF l b] c_def by (simp split: if_splits)
  have "trello_cards s' = trello_cards s @ [c]"
    by (simp add: s')
  moreover have "trello_activities s' = trello_activities s @ [a]"
    by (simp add: s' log_activity_def a_def)
  moreover have "crd_title c = ''New Card''" "crd_list_id c = list_id"
    by (simp_all add: c_def)
  moreover have "act_action a = ''created_card''" "act_details a = Some [(''title'', ''New Card'')]"
    by (simp_all add: a_def)
  ultimately show "\<exists>c a. trello_cards s' = trello_cards s @ [c] \<and>
             crd_title c = ''New Card'' \<and> crd_list_id c = list_id \<and>
             trello_activities s' = trello_activities s @ [a] \<and>
             act_action a = ''created_card'' \<and>
             act_details a = Some [(''title'', ''New Card'')]"
    by (intro exI [of _ c] exI [of _ a]) simp
next
  assume h: "get_list s list_id = Some lst \<and> board_of_list s lst = Inr board \<and>
    can_edit s board u \<and>
    sql_integer (py_or (sql_max (map crd_position
       (filter (\<lambda>c. crd_list_id c = list_id) (trello_cards s)))) 0 + 1)"
  then have l: "get_list s list_id = Some lst" and b: "board_of_list s lst = Inr board"
    by simp_all
  show "\<exists>s'. create_card s u list_id None = Inr s'"
    unfolding create_card_none_result [OF l b] using h by simp
qed

theorem create_card_default_title_witness:
  "\<exists>s' c a. create_card ex_db 4 10 None = Inr s' \<and> trello_cards s' = [ex_card, c] \<and>
      crd_title c = ''New Card'' \<and> crd_list_id c = 10 \<and>
      trello_activities s' = [a] \<and> act_action a = ''created_card''"
proof -
  let ?lst = "\<lparr>lst_id = 10, lst_board_id = 1, lst_name = ''To Do'', lst_position = 0,
         lst_is_archived = False\<rparr>"
  have h: "get_list ex_db 10 = Some ?lst \<and> board_of_list ex_db ?lst = Inr ex_board1 \<and>
      can_edit ex_db ex_board1 4 \<and>
      sql_integer (py_or (sql_max (map crd_position
         (filter (\<lambda>c. crd_list_id c = 10) (trello_cards ex_db)))) 0 + 1)"
    by (simp add: get_list_def board_of_list_def get_board_def can_edit_def get_member_role_def
        sql_integer_def ex_db_def ex_board1_def ex_card_def)
  note inst = create_card_default_title [of ex_db 4 10 ?lst ex_board1]
  from inst [THEN conjunct2, THEN conjunct2, THEN mp, OF h]
  obtain s' where r: "create_card ex_db 4 10 None = Inr s'" ..
  from inst [THEN conjunct2, THEN conjunct1, THEN spec, THEN mp, OF r]
  obtain c a where ca: "trello_cards s' = trello_cards ex_db @ [c] \<and>
             crd_title c = ''New Card'' \<and> crd_list_id c = 10 \<and>
             trello_activities s' = trello_activities ex_db @ [a] \<and>
             act_action a = ''created_card'' \<and>
             act_details a = Some [(''title'', ''New Card'')]"
    by (elim exE)
  with r show ?thesis
    by (intro exI [of _ s'] exI [of _ c] exI [of _ a]) (simp add: ex_db_def)
qed

end
